theory Spec2Isabelle
  imports Main "HOL-Library.Sublist" "HOL-Library.Word"
begin

text \<open>
  A model of the C sources of akon that drive libopenconnect: the test program
  \<open>test_openconnect.c\<close> (its auth-form callback and its \<open>main\<close>) and the progress callback
  \<open>akon-core/progress_shim.c\<close>. The library itself is an opaque collaborator: it appears only
  through the values it returns and the forms it presents.
\<close>

section \<open>C values and the process's output\<close>

text \<open>
  The C type \<open>int\<close> is a 32-bit machine integer. A \<open>char *\<close> that may be \<open>NULL\<close> is a
  \<open>string option\<close>; a NUL-terminated C string is the list of its characters. A
  \<open>struct openconnect_info *\<close> that is not \<open>NULL\<close> is a handle.
\<close>

type_synonym c_int = "32 word"

type_synonym handle = nat

text \<open>
  Everything the test program does to the outside world is recorded, in program order: a
  write to the standard output stream, a write to the error stream, a call of a function
  of libopenconnect.
\<close>

datatype api =
    InitSsl
  | VpninfoNew
  | SetProtocol handle string
  | ParseUrl handle string
  | DisableDtls handle
  | ObtainCookie handle
  | VpninfoFree handle

datatype event = Stdout string | Stderr string | Call api

definition nl :: string where
  "nl = [CHR 0x0A]"

section \<open>The authentication form (openconnect.h)\<close>

text \<open>
  Modelled from the spec: \<open>struct oc_form_opt\<close> and \<open>struct oc_auth_form\<close> are declared in
  libopenconnect's \<open>openconnect.h\<close>, which is not part of this repository. A form is the
  ordered sequence of its fields (the \<open>next\<close>-linked list starting at \<open>form->opts\<close>); a
  field has a kind (text, password or choice), a name, a label, the value attached to it
  (\<open>_value\<close> in C, \<open>opt_value\<close> here) and, for a choice, the allowed values.
\<close>

datatype field_kind = Text | Password | Choice

record oc_form_opt =
  kind :: field_kind
  name :: "string option"
  label :: "string option"
  opt_value :: "string option"
  choices :: "string list"

record oc_auth_form =
  opts :: "oc_form_opt list"

section \<open>libc\<close>

text \<open>
  \<open>strstr(haystack, needle)\<close> returns a pointer to the first occurrence of \<open>needle\<close> in
  \<open>haystack\<close>, that is the rest of the haystack from there on, or \<open>NULL\<close>.
\<close>

fun strstr :: "string \<Rightarrow> string \<Rightarrow> string option" where
  "strstr [] needle = (if needle = [] then Some [] else None)"
| "strstr (c # cs) needle =
     (if prefix needle (c # cs) then Some (c # cs) else strstr cs needle)"

text \<open>\<open>strdup\<close> returns a fresh copy of its argument; allocation is taken to succeed.\<close>

definition strdup :: "string \<Rightarrow> string option" where
  "strdup s = Some s"

section \<open>test\_openconnect.c: the auth-form callback\<close>

text \<open>
  The body of the \<open>for\<close> loop of \<open>process_auth_form_cb\<close> for one field: the field after the
  body, and what the body printed.
\<close>

definition fill_opt :: "oc_form_opt \<Rightarrow> oc_form_opt \<times> event list" where
  "fill_opt opt =
     (case name opt of
        None \<Rightarrow> (opt, [])
      | Some n \<Rightarrow>
          (if strstr n ''user'' \<noteq> None \<or> strstr n ''name'' \<noteq> None
             then opt\<lparr>opt_value := strdup ''vicwil''\<rparr>
           else if strstr n ''pass'' \<noteq> None \<or> strstr n ''secret'' \<noteq> None
             then opt\<lparr>opt_value := strdup ''test123''\<rparr>
           else opt,
           [Stdout (''Field: '' @ n @ nl)]))"

text \<open>The loop \<open>for (opt = form->opts; opt; opt = opt->next)\<close>.\<close>

fun fill_opts :: "oc_form_opt list \<Rightarrow> oc_form_opt list \<times> event list" where
  "fill_opts [] = ([], [])"
| "fill_opts (opt # rest) =
     (let (opt', out) = fill_opt opt;
          (rest', out') = fill_opts rest
      in (opt' # rest', out @ out'))"

text \<open>
  \<open>process_auth_form_cb\<close>: the return value, the form as the callback leaves it, and what
  it printed.
\<close>

definition process_auth_form_cb :: "oc_auth_form \<Rightarrow> c_int \<times> oc_auth_form \<times> event list" where
  "process_auth_form_cb form =
     (let (os, out) = fill_opts (opts form)
      in (0, form\<lparr>opts := os\<rparr>, Stdout (''Auth form callback called'' @ nl) # out))"

section \<open>The engine (libopenconnect) as seen by the test program\<close>

text \<open>
  libopenconnect is not part of this repository. The test program sees it through the
  return values of the calls it makes, and through the forms the engine hands to the
  auth-form callback while \<open>openconnect_obtain_cookie\<close> runs. A negotiation either ends with
  the return value of \<open>openconnect_obtain_cookie\<close>, or presents a form to the callback and goes
  on according to what the callback returned and the form as the callback left it. The
  call is one that returns: a negotiation presents finitely many forms.
\<close>

datatype negotiation =
    Done c_int
  | Present oc_auth_form "c_int \<times> oc_auth_form \<Rightarrow> negotiation"

record engine =
  init_ssl :: c_int
  vpninfo_new :: "handle option"
  set_protocol :: "string \<Rightarrow> c_int"
  parse_url :: "string \<Rightarrow> c_int"
  obtain_cookie :: negotiation

text \<open>
  \<open>openconnect_obtain_cookie\<close> with the callback \<open>cb\<close> registered: the return value, and
  what the callback printed on the way.
\<close>

primrec negotiate ::
  "(oc_auth_form \<Rightarrow> c_int \<times> oc_auth_form \<times> event list) \<Rightarrow> negotiation \<Rightarrow> c_int \<times> event list"
where
  "negotiate cb (Done ret) = (ret, [])"
| "negotiate cb (Present form k) =
     (case cb form of (rc, form', out) \<Rightarrow>
        (case negotiate cb (k (rc, form')) of (ret, out') \<Rightarrow> (ret, out @ out')))"

section \<open>test\_openconnect.c: main\<close>

text \<open>The conversion \<open>%d\<close> of \<open>printf\<close>.\<close>

fun dec :: "nat \<Rightarrow> string" where
  "dec n = (if n < 10 then [''0123456789'' ! n] else dec (n div 10) @ [''0123456789'' ! (n mod 10)])"

definition printf_d :: "c_int \<Rightarrow> string" where
  "printf_d i = (if sint i < 0 then CHR ''-'' # dec (nat (- sint i)) else dec (nat (sint i)))"

text \<open>
  \<open>main\<close>: the value it returns and everything it did, in order. Each early \<open>return 1\<close> of
  the source is a branch that ends the trace there.
\<close>

definition main :: "engine \<Rightarrow> c_int \<times> event list" where
  "main e =
    (let tr = [Stdout (''Initializing OpenConnect...'' @ nl), Call InitSsl] in
     if init_ssl e \<noteq> 0 then (1, tr @ [Stderr (''Failed to init SSL'' @ nl)])
     else
     let tr = tr @ [Stdout (''Creating vpninfo...'' @ nl), Call VpninfoNew] in
     case vpninfo_new e of
       None \<Rightarrow> (1, tr @ [Stderr (''Failed to create vpninfo'' @ nl)])
     | Some vpn \<Rightarrow>
     let tr = tr @ [Stdout (''Setting protocol to f5...'' @ nl), Call (SetProtocol vpn ''f5'')] in
     if set_protocol e ''f5'' \<noteq> 0 then (1, tr @ [Stderr (''Failed to set protocol'' @ nl)])
     else
     let tr = tr @ [Stdout (''Parsing URL...'' @ nl),
                    Call (ParseUrl vpn ''https://access.etraveligroup.com'')] in
     if parse_url e ''https://access.etraveligroup.com'' \<noteq> 0
       then (1, tr @ [Stderr (''Failed to parse URL'' @ nl)])
     else
     let tr = tr @ [Stdout (''Disabling DTLS...'' @ nl), Call (DisableDtls vpn)];
         tr = tr @ [Stdout (''Obtaining cookie (this will make HTTPS requests)...'' @ nl),
                    Call (ObtainCookie vpn)];
         (ret, out) = negotiate process_auth_form_cb (obtain_cookie e);
         tr = tr @ out @ [Stdout (''openconnect_obtain_cookie returned: '' @ printf_d ret @ nl)];
         tr = tr @ (if ret \<noteq> 0 then [Stderr (''Authentication failed'' @ nl)]
                    else [Stdout (''Authentication successful!'' @ nl)]);
         tr = tr @ [Call (VpninfoFree vpn)]
     in (ret, tr))"

section \<open>akon-core/progress\_shim.c\<close>

definition PRG_ERR :: c_int where "PRG_ERR = 0"
definition PRG_INFO :: c_int where "PRG_INFO = 1"
definition PRG_DEBUG :: c_int where "PRG_DEBUG = 2"
definition PRG_TRACE :: c_int where "PRG_TRACE = 3"

text \<open>
  The two standard streams of the process. A stream holds the characters written to it
  and not yet flushed, and the characters that have reached its file descriptor.
\<close>

datatype FILE = stdout | stderr

record stream =
  pending :: string
  delivered :: string

record stdio =
  out_stream :: stream
  err_stream :: stream

definition get_stream :: "FILE \<Rightarrow> stdio \<Rightarrow> stream" where
  "get_stream f io = (case f of stdout \<Rightarrow> out_stream io | stderr \<Rightarrow> err_stream io)"

definition put_stream :: "FILE \<Rightarrow> stream \<Rightarrow> stdio \<Rightarrow> stdio" where
  "put_stream f s io = (case f of stdout \<Rightarrow> io\<lparr>out_stream := s\<rparr> | stderr \<Rightarrow> io\<lparr>err_stream := s\<rparr>)"

text \<open>
  \<open>vfprintf(out, fmt, args)\<close> appends the formatted text to the stream. The conversion of
  \<open>fmt\<close> and \<open>args\<close> into text is libc's and is taken as the parameter \<open>render\<close>.
\<close>

definition vfprintf :: "(string \<Rightarrow> 'a \<Rightarrow> string) \<Rightarrow> FILE \<Rightarrow> string \<Rightarrow> 'a \<Rightarrow> stdio \<Rightarrow> stdio" where
  "vfprintf render out fmt args io =
     (let s = get_stream out io
      in put_stream out (s\<lparr>pending := pending s @ render fmt args\<rparr>) io)"

definition fflush :: "FILE \<Rightarrow> stdio \<Rightarrow> stdio" where
  "fflush out io =
     (let s = get_stream out io
      in put_stream out (s\<lparr>pending := [], delivered := delivered s @ pending s\<rparr>) io)"

text \<open>\<open>progress_shim(privdata, level, fmt, ...)\<close>; \<open>privdata\<close> is unused.\<close>

definition progress_shim ::
  "(string \<Rightarrow> 'a \<Rightarrow> string) \<Rightarrow> c_int \<Rightarrow> string \<Rightarrow> 'a \<Rightarrow> stdio \<Rightarrow> stdio" where
  "progress_shim render level fmt args io =
     (let out = (if level = PRG_ERR then stderr else stdout);
          io = vfprintf render out fmt args io
      in fflush out io)"

section \<open>The Form Resolver's contract in the specification's words\<close>

text \<open>
  The specification describes the callback as a resolver that returns a mapping from field
  name to provided value, where the code writes the value into the field in place. These
  two definitions follow the specification, to be compared with the code: the static map
  provider ("substring match for user/name gives the identity value; substring match for
  pass/secret gives the secret value"), and the mapping that a form carries, from the name
  of each named field with a value attached to that value.
\<close>

definition spec_static_provider :: "string \<Rightarrow> string option" where
  "spec_static_provider n =
     (if sublist ''user'' n \<or> sublist ''name'' n then Some ''vicwil''
      else if sublist ''pass'' n \<or> sublist ''secret'' n then Some ''test123''
      else None)"

definition spec_entry :: "oc_form_opt \<Rightarrow> (string \<times> string) option" where
  "spec_entry opt =
     (case name opt of
        None \<Rightarrow> None
      | Some n \<Rightarrow> (case opt_value opt of None \<Rightarrow> None | Some v \<Rightarrow> Some (n, v)))"

definition spec_mapping :: "oc_auth_form \<Rightarrow> (string \<rightharpoonup> string)" where
  "spec_mapping form = map_of (List.map_filter spec_entry (opts form))"

section \<open>Sample inputs\<close>

text \<open>The form of the specification's scenario: a text field and a password field.\<close>

definition login_form :: oc_auth_form where
  "login_form =
     \<lparr>opts =
        [\<lparr>kind = Text, name = Some ''username'', label = Some ''Username:'',
          opt_value = None, choices = []\<rparr>,
         \<lparr>kind = Password, name = Some ''password'', label = Some ''Password:'',
          opt_value = None, choices = []\<rparr>]\<rparr>"

text \<open>A form with one choice field, whose allowed values are push and sms.\<close>

definition choice_form :: oc_auth_form where
  "choice_form =
     \<lparr>opts =
        [\<lparr>kind = Choice, name = Some ''passcode_method'', label = Some ''Method:'',
          opt_value = None, choices = [''push'', ''sms'']\<rparr>]\<rparr>"

text \<open>A form whose second field has no name.\<close>

definition nameless_form :: oc_auth_form where
  "nameless_form =
     \<lparr>opts =
        [\<lparr>kind = Text, name = Some ''username'', label = None, opt_value = None, choices = []\<rparr>,
         \<lparr>kind = Text, name = None, label = None, opt_value = None, choices = []\<rparr>,
         \<lparr>kind = Password, name = Some ''password'', label = None, opt_value = None, choices = []\<rparr>]\<rparr>"

text \<open>
  A form that arrives with a value already attached: the group selection comes with the
  default \<open>staff\<close>.
\<close>

definition prefilled_form :: oc_auth_form where
  "prefilled_form =
     \<lparr>opts =
        [\<lparr>kind = Text, name = Some ''username'', label = None, opt_value = None, choices = []\<rparr>,
         \<lparr>kind = Choice, name = Some ''group_list'', label = None, opt_value = Some ''staff'',
          choices = [''staff'', ''guest'']\<rparr>]\<rparr>"

text \<open>
  An engine on which every call succeeds and which presents the login form once, and the
  same engine with a negotiation that ends in \<open>-EPERM\<close>.
\<close>

definition engine_ok :: engine where
  "engine_ok =
     \<lparr>init_ssl = 0, vpninfo_new = Some 1, set_protocol = (\<lambda>p. 0), parse_url = (\<lambda>u. 0),
      obtain_cookie = Present login_form (\<lambda>r. Done 0)\<rparr>"

definition engine_rejected :: engine where
  "engine_rejected = engine_ok\<lparr>obtain_cookie := Present login_form (\<lambda>r. Done (- 1))\<rparr>"

text \<open>
  An engine that does not know the protocol \<open>f5\<close> (libopenconnect before 8.20) and answers
  \<open>-EINVAL\<close> to it.
\<close>

definition engine_no_f5 :: engine where
  "engine_no_f5 = engine_ok\<lparr>set_protocol := (\<lambda>p. if p = ''f5'' then - 22 else 0)\<rparr>"

definition io0 :: stdio where
  "io0 = \<lparr>out_stream = \<lparr>pending = ''x'', delivered = []\<rparr>,
          err_stream = \<lparr>pending = [], delivered = []\<rparr>\<rparr>"

section \<open>Helper lemmas: the callback\<close>

lemma strstr_sublist: "strstr h n \<noteq> None \<longleftrightarrow> sublist n h"
  by (induction h) (auto simp: sublist_Cons_right)

lemma strstr_None: "strstr h n = None \<longleftrightarrow> \<not> sublist n h"
  using strstr_sublist [of h n] by blast

lemma fill_opt_fst:
  "fst (fill_opt opt) =
     opt\<lparr>opt_value :=
       (case name opt of
          None \<Rightarrow> opt_value opt
        | Some n \<Rightarrow>
            if sublist ''user'' n \<or> sublist ''name'' n then Some ''vicwil''
            else if sublist ''pass'' n \<or> sublist ''secret'' n then Some ''test123''
            else opt_value opt)\<rparr>"
  by (cases "name opt") (simp_all add: fill_opt_def strdup_def strstr_None)

lemma fill_opt_snd:
  "snd (fill_opt opt) =
     (case name opt of None \<Rightarrow> [] | Some n \<Rightarrow> [Stdout (''Field: '' @ n @ nl)])"
  by (simp add: fill_opt_def split: option.splits)

lemma fill_opts_fst: "fst (fill_opts os) = map (\<lambda>opt. fst (fill_opt opt)) os"
  by (induction os) (simp_all add: case_prod_beta)

lemma fill_opts_snd: "snd (fill_opts os) = concat (map (\<lambda>opt. snd (fill_opt opt)) os)"
  by (induction os) (simp_all add: case_prod_beta)

lemma fill_opts_append:
  "fill_opts (xs @ ys) =
     (fst (fill_opts xs) @ fst (fill_opts ys), snd (fill_opts xs) @ snd (fill_opts ys))"
  by (induction xs) (simp_all add: case_prod_beta)

lemma cb_eq:
  "process_auth_form_cb form =
     (0, form\<lparr>opts := fst (fill_opts (opts form))\<rparr>,
      Stdout (''Auth form callback called'' @ nl) # snd (fill_opts (opts form)))"
  by (simp add: process_auth_form_cb_def case_prod_beta)

lemma printed_fields:
  "snd (fill_opts os) = map (\<lambda>n. Stdout (''Field: '' @ n @ nl)) (List.map_filter name os)"
  by (induction os) (simp_all add: fill_opt_snd case_prod_beta split: option.splits)

text \<open>The callback on the sample forms.\<close>

lemma login_form_filled:
  "process_auth_form_cb login_form =
     (0,
      \<lparr>opts =
        [\<lparr>kind = Text, name = Some ''username'', label = Some ''Username:'',
          opt_value = Some ''vicwil'', choices = []\<rparr>,
         \<lparr>kind = Password, name = Some ''password'', label = Some ''Password:'',
          opt_value = Some ''test123'', choices = []\<rparr>]\<rparr>,
      [Stdout (''Auth form callback called'' @ nl), Stdout (''Field: username'' @ nl),
       Stdout (''Field: password'' @ nl)])"
  by (simp add: process_auth_form_cb_def login_form_def fill_opt_def strdup_def)

lemma choice_form_filled:
  "process_auth_form_cb choice_form =
     (0,
      \<lparr>opts =
        [\<lparr>kind = Choice, name = Some ''passcode_method'', label = Some ''Method:'',
          opt_value = Some ''test123'', choices = [''push'', ''sms'']\<rparr>]\<rparr>,
      [Stdout (''Auth form callback called'' @ nl), Stdout (''Field: passcode_method'' @ nl)])"
  by (simp add: process_auth_form_cb_def choice_form_def fill_opt_def strdup_def)

lemma nameless_form_filled:
  "process_auth_form_cb nameless_form =
     (0,
      \<lparr>opts =
        [\<lparr>kind = Text, name = Some ''username'', label = None, opt_value = Some ''vicwil'',
          choices = []\<rparr>,
         \<lparr>kind = Text, name = None, label = None, opt_value = None, choices = []\<rparr>,
         \<lparr>kind = Password, name = Some ''password'', label = None, opt_value = Some ''test123'',
          choices = []\<rparr>]\<rparr>,
      [Stdout (''Auth form callback called'' @ nl), Stdout (''Field: username'' @ nl),
       Stdout (''Field: password'' @ nl)])"
  by (simp add: process_auth_form_cb_def nameless_form_def fill_opt_def strdup_def)

lemma prefilled_form_filled:
  "process_auth_form_cb prefilled_form =
     (0,
      \<lparr>opts =
        [\<lparr>kind = Text, name = Some ''username'', label = None, opt_value = Some ''vicwil'',
          choices = []\<rparr>,
         \<lparr>kind = Choice, name = Some ''group_list'', label = None, opt_value = Some ''staff'',
          choices = [''staff'', ''guest'']\<rparr>]\<rparr>,
      [Stdout (''Auth form callback called'' @ nl), Stdout (''Field: username'' @ nl),
       Stdout (''Field: group_list'' @ nl)])"
  by (simp add: process_auth_form_cb_def prefilled_form_def fill_opt_def strdup_def)

section \<open>Helper lemmas: the specification's mapping\<close>

lemma fill_opt_provider:
  "fst (fill_opt opt) =
     opt\<lparr>opt_value :=
       (case name opt of
          None \<Rightarrow> opt_value opt
        | Some n \<Rightarrow> (case spec_static_provider n of None \<Rightarrow> opt_value opt | Some v \<Rightarrow> Some v))\<rparr>"
  by (simp add: fill_opt_fst spec_static_provider_def split: option.splits)

lemma spec_entry_fill:
  "spec_entry (fst (fill_opt opt)) =
     (case name opt of
        None \<Rightarrow> None
      | Some n \<Rightarrow> (case spec_static_provider n of None \<Rightarrow> spec_entry opt | Some v \<Rightarrow> Some (n, v)))"
  by (simp add: fill_opt_provider spec_entry_def split: option.splits)

lemma spec_entry_name: "spec_entry opt = Some (n, v) \<Longrightarrow> name opt = Some n"
  by (simp add: spec_entry_def split: option.splits)

lemma set_map_filter: "set (List.map_filter f xs) = {y. \<exists>x \<in> set xs. f x = Some y}"
  by (induction xs) (auto simp: List.map_filter_simps split: option.splits)

lemma filled_key:
  "(\<exists>v. spec_entry (fst (fill_opt opt)) = Some (n, v)) \<longleftrightarrow>
   name opt = Some n \<and> (spec_static_provider n \<noteq> None \<or> (\<exists>v. spec_entry opt = Some (n, v)))"
proof (cases "name opt")
  case None
  then show ?thesis by (simp add: spec_entry_fill)
next
  case (Some m)
  then show ?thesis
    by (cases "spec_static_provider m") (auto simp: spec_entry_fill dest: spec_entry_name)
qed

lemma dom_filled:
  "dom (map_of (List.map_filter spec_entry (map (\<lambda>opt. fst (fill_opt opt)) os))) =
   dom (map_of (List.map_filter spec_entry os)) \<union>
   {n. Some n \<in> name ` set os \<and> spec_static_provider n \<noteq> None}"
  (is "?L = ?R")
proof -
  have L: "?L = {n. \<exists>opt \<in> set os. \<exists>v. spec_entry (fst (fill_opt opt)) = Some (n, v)}"
    by (force simp: dom_map_of_conv_image_fst set_map_filter)
  have R: "dom (map_of (List.map_filter spec_entry os)) =
      {n. \<exists>opt \<in> set os. \<exists>v. spec_entry opt = Some (n, v)}"
    by (force simp: dom_map_of_conv_image_fst set_map_filter)
  show ?thesis
    unfolding L R filled_key
    by (auto dest: spec_entry_name simp: image_iff) (metis spec_entry_name)+
qed

lemma spec_entry_fill_unset:
  "opt_value opt = None \<Longrightarrow>
   spec_entry (fst (fill_opt opt)) =
     (case name opt of
        None \<Rightarrow> None
      | Some m \<Rightarrow> (case spec_static_provider m of None \<Rightarrow> None | Some w \<Rightarrow> Some (m, w)))"
proof (cases "name opt")
  case None
  then show ?thesis by (simp add: spec_entry_fill)
next
  case (Some m)
  assume "opt_value opt = None"
  with Some have "spec_entry opt = None" by (simp add: spec_entry_def)
  with Some show ?thesis
    by (cases "spec_static_provider m") (simp_all add: spec_entry_fill)
qed

lemma map_of_filled:
  assumes "\<forall>opt \<in> set os. opt_value opt = None"
  shows "map_of (List.map_filter spec_entry (map (\<lambda>opt. fst (fill_opt opt)) os)) n =
    (if Some n \<in> name ` set os then spec_static_provider n else None)"
  using assms
proof (induction os)
  case Nil
  then show ?case by (simp add: List.map_filter_simps)
next
  case (Cons opt os)
  then have v: "opt_value opt = None" and IH:
    "map_of (List.map_filter spec_entry (map (\<lambda>opt. fst (fill_opt opt)) os)) n =
      (if Some n \<in> name ` set os then spec_static_provider n else None)"
    by simp_all
  note e = spec_entry_fill_unset [OF v]
  show ?case
  proof (cases "name opt")
    case None
    with e IH show ?thesis by (simp add: List.map_filter_simps)
  next
    case (Some m)
    show ?thesis
    proof (cases "spec_static_provider m")
      case None
      with Some e IH show ?thesis by (auto simp: List.map_filter_simps)
    next
      case (Some w)
      with \<open>name opt = Some m\<close> e IH show ?thesis by (auto simp: List.map_filter_simps)
    qed
  qed
qed

lemma map_of_filled_any:
  "map_of (List.map_filter spec_entry (map (\<lambda>opt. fst (fill_opt opt)) os)) n =
    (if Some n \<in> name ` set os \<and> spec_static_provider n \<noteq> None then spec_static_provider n
     else map_of (List.map_filter spec_entry os) n)"
proof (induction os)
  case Nil
  then show ?case by (simp add: List.map_filter_simps)
next
  case (Cons opt os)
  show ?case
  proof (cases "name opt")
    case None
    then have "spec_entry opt = None" and "spec_entry (fst (fill_opt opt)) = None"
      by (simp add: spec_entry_def, simp add: spec_entry_fill)
    with None Cons.IH show ?thesis by (auto simp: List.map_filter_simps)
  next
    case (Some m)
    have before: "spec_entry opt = None \<or> (\<exists>w. spec_entry opt = Some (m, w))"
      using Some by (auto simp: spec_entry_def split: option.splits)
    show ?thesis
    proof (cases "spec_static_provider m")
      case None
      with Some have "spec_entry (fst (fill_opt opt)) = spec_entry opt"
        by (simp add: spec_entry_fill)
      with None Some before Cons.IH show ?thesis
        by (auto simp: List.map_filter_simps)
    next
      case (Some v)
      with \<open>name opt = Some m\<close> have "spec_entry (fst (fill_opt opt)) = Some (m, v)"
        by (simp add: spec_entry_fill)
      with Some \<open>name opt = Some m\<close> before Cons.IH show ?thesis
        by (auto simp: List.map_filter_simps)
    qed
  qed
qed

lemma provider_group_list: "spec_static_provider ''group_list'' = None"
  by (simp add: spec_static_provider_def strstr_None [symmetric])

lemma provider_username: "spec_static_provider ''username'' = Some ''vicwil''"
  by (simp add: spec_static_provider_def strstr_sublist [symmetric])

lemma provider_password: "spec_static_provider ''password'' = Some ''test123''"
  by (simp add: spec_static_provider_def strstr_None [symmetric] strstr_sublist [symmetric])

lemma provider_passcode_method: "spec_static_provider ''passcode_method'' = Some ''test123''"
  by (simp add: spec_static_provider_def strstr_None [symmetric] strstr_sublist [symmetric])

section \<open>Helper lemmas: main\<close>

text \<open>While the engine negotiates, the only output is the callback's, on standard output.\<close>

lemma negotiate_cb_events:
  "ev \<in> set (snd (negotiate process_auth_form_cb ng)) \<Longrightarrow>
   ev = Stdout (''Auth form callback called'' @ nl) \<or> (\<exists>n. ev = Stdout (''Field: '' @ n @ nl))"
proof (induction ng arbitrary: ev)
  case (Done ret)
  then show ?case by simp
next
  case (Present form k)
  let ?r = "process_auth_form_cb form"
  from Present.prems have
    "ev \<in> set (snd (snd ?r)) \<or>
     ev \<in> set (snd (negotiate process_auth_form_cb (k (fst ?r, fst (snd ?r)))))"
    by (auto simp: case_prod_beta)
  then show ?case
  proof
    assume "ev \<in> set (snd (snd ?r))"
    then show ?thesis by (auto simp: cb_eq printed_fields)
  next
    assume "ev \<in> set (snd (negotiate process_auth_form_cb (k (fst ?r, fst (snd ?r)))))"
    then show ?thesis using Present.IH by blast
  qed
qed

text \<open>The five ways through \<open>main\<close>.\<close>

lemma main_init_fails:
  "init_ssl e \<noteq> 0 \<Longrightarrow>
   main e = (1, [Stdout (''Initializing OpenConnect...'' @ nl), Call InitSsl,
                 Stderr (''Failed to init SSL'' @ nl)])"
  by (simp add: main_def)

lemma main_new_fails:
  "init_ssl e = 0 \<Longrightarrow> vpninfo_new e = None \<Longrightarrow>
   main e = (1, [Stdout (''Initializing OpenConnect...'' @ nl), Call InitSsl,
                 Stdout (''Creating vpninfo...'' @ nl), Call VpninfoNew,
                 Stderr (''Failed to create vpninfo'' @ nl)])"
  by (simp add: main_def)

lemma main_protocol_fails:
  "init_ssl e = 0 \<Longrightarrow> vpninfo_new e = Some vpn \<Longrightarrow> set_protocol e ''f5'' \<noteq> 0 \<Longrightarrow>
   main e = (1, [Stdout (''Initializing OpenConnect...'' @ nl), Call InitSsl,
                 Stdout (''Creating vpninfo...'' @ nl), Call VpninfoNew,
                 Stdout (''Setting protocol to f5...'' @ nl), Call (SetProtocol vpn ''f5''),
                 Stderr (''Failed to set protocol'' @ nl)])"
  by (simp add: main_def)

lemma main_url_fails:
  "init_ssl e = 0 \<Longrightarrow> vpninfo_new e = Some vpn \<Longrightarrow> set_protocol e ''f5'' = 0 \<Longrightarrow>
   parse_url e ''https://access.etraveligroup.com'' \<noteq> 0 \<Longrightarrow>
   main e = (1, [Stdout (''Initializing OpenConnect...'' @ nl), Call InitSsl,
                 Stdout (''Creating vpninfo...'' @ nl), Call VpninfoNew,
                 Stdout (''Setting protocol to f5...'' @ nl), Call (SetProtocol vpn ''f5''),
                 Stdout (''Parsing URL...'' @ nl),
                 Call (ParseUrl vpn ''https://access.etraveligroup.com''),
                 Stderr (''Failed to parse URL'' @ nl)])"
  by (simp add: main_def)

lemma main_negotiates:
  "init_ssl e = 0 \<Longrightarrow> vpninfo_new e = Some vpn \<Longrightarrow> set_protocol e ''f5'' = 0 \<Longrightarrow>
   parse_url e ''https://access.etraveligroup.com'' = 0 \<Longrightarrow>
   negotiate process_auth_form_cb (obtain_cookie e) = (ret, out) \<Longrightarrow>
   main e = (ret, [Stdout (''Initializing OpenConnect...'' @ nl), Call InitSsl,
                   Stdout (''Creating vpninfo...'' @ nl), Call VpninfoNew,
                   Stdout (''Setting protocol to f5...'' @ nl), Call (SetProtocol vpn ''f5''),
                   Stdout (''Parsing URL...'' @ nl),
                   Call (ParseUrl vpn ''https://access.etraveligroup.com''),
                   Stdout (''Disabling DTLS...'' @ nl), Call (DisableDtls vpn),
                   Stdout (''Obtaining cookie (this will make HTTPS requests)...'' @ nl),
                   Call (ObtainCookie vpn)] @ out @
                  [Stdout (''openconnect_obtain_cookie returned: '' @ printf_d ret @ nl),
                   if ret \<noteq> 0 then Stderr (''Authentication failed'' @ nl)
                   else Stdout (''Authentication successful!'' @ nl),
                   Call (VpninfoFree vpn)])"
  by (simp add: main_def)

text \<open>The negotiations of the sample engines.\<close>

lemma negotiate_engine_ok:
  "negotiate process_auth_form_cb (obtain_cookie engine_ok) =
     (0, [Stdout (''Auth form callback called'' @ nl), Stdout (''Field: username'' @ nl),
          Stdout (''Field: password'' @ nl)])"
  by (simp add: engine_ok_def login_form_filled)

lemma negotiate_engine_rejected:
  "negotiate process_auth_form_cb (obtain_cookie engine_rejected) =
     (- 1, [Stdout (''Auth form callback called'' @ nl), Stdout (''Field: username'' @ nl),
            Stdout (''Field: password'' @ nl)])"
  by (simp add: engine_rejected_def engine_ok_def login_form_filled)

text \<open>
  Once the protocol and the URL have been accepted, \<open>main\<close> frees the handle exactly once,
  whatever \<open>openconnect_obtain_cookie\<close> returns.
\<close>

lemma main_releases_after_configure:
  assumes "init_ssl e = 0" and "vpninfo_new e = Some vpn" and "set_protocol e ''f5'' = 0"
    and "parse_url e ''https://access.etraveligroup.com'' = 0"
  shows "count_list (snd (main e)) (Call (VpninfoFree vpn)) = 1"
proof -
  obtain ret out where n: "negotiate process_auth_form_cb (obtain_cookie e) = (ret, out)"
    by (cases "negotiate process_auth_form_cb (obtain_cookie e)") auto
  have "Call (VpninfoFree vpn) \<notin> set out"
    using negotiate_cb_events [of "Call (VpninfoFree vpn)" "obtain_cookie e"] n by auto
  then have "count_list out (Call (VpninfoFree vpn)) = 0"
    by (simp add: count_list_0_iff)
  then show ?thesis
    by (simp add: main_negotiates [OF assms n])
qed

section \<open>The claims\<close>

subsection \<open>C1: a choice field and its allowed values\<close>

text \<open>
  C1 as stated: when the value the provider supplies for a field of kind choice is not one
  of the field's allowed values, the callback returns the nonzero abort result instead of
  returning success with the out-of-set value attached. The code does not do this; it
  never looks at the kind or at the allowed values.

  C1 as amended: for every form and every choice field of it for which the static provider
  has a value, the callback returns 0 and the field comes back with that value attached,
  whether or not the value is one of the field's allowed values.
\<close>

theorem C1_choice_accepted_unchecked:
  assumes "process_auth_form_cb form = (rc, form', out)"
    and "i < length (opts form)"
    and "kind (opts form ! i) = Choice"
    and "name (opts form ! i) = Some n"
    and "spec_static_provider n = Some v"
  shows "rc = 0 \<and> opts form' ! i = (opts form ! i)\<lparr>opt_value := Some v\<rparr>"
  using assms by (auto simp: cb_eq fill_opts_fst fill_opt_provider)

text \<open>
  The amended claim on the choice form: its field is named \<open>passcode_method\<close>, the provider's
  value for it is \<open>test123\<close>, which is neither push nor sms.
\<close>

theorem C1_choice_accepted_unchecked_witness:
  "process_auth_form_cb choice_form =
     (0,
      \<lparr>opts =
        [\<lparr>kind = Choice, name = Some ''passcode_method'', label = Some ''Method:'',
          opt_value = Some ''test123'', choices = [''push'', ''sms'']\<rparr>]\<rparr>,
      [Stdout (''Auth form callback called'' @ nl), Stdout (''Field: passcode_method'' @ nl)]) \<and>
   (0::nat) < length (opts choice_form) \<and>
   kind (opts choice_form ! 0) = Choice \<and>
   name (opts choice_form ! 0) = Some ''passcode_method'' \<and>
   spec_static_provider ''passcode_method'' = Some ''test123'' \<and>
   ''test123'' \<notin> set (choices (opts choice_form ! 0)) \<and>
   \<lparr>kind = Choice, name = Some ''passcode_method'', label = Some ''Method:'',
    opt_value = Some ''test123'', choices = [''push'', ''sms'']\<rparr> =
   (opts choice_form ! 0)\<lparr>opt_value := Some ''test123''\<rparr>"
proof -
  have i: "(0::nat) < length (opts choice_form)" by (simp add: choice_form_def)
  have k: "kind (opts choice_form ! 0) = Choice" by (simp add: choice_form_def)
  have n: "name (opts choice_form ! 0) = Some ''passcode_method''" by (simp add: choice_form_def)
  have c: "''test123'' \<notin> set (choices (opts choice_form ! 0))" by (simp add: choice_form_def)
  from C1_choice_accepted_unchecked [OF choice_form_filled i k n provider_passcode_method]
    choice_form_filled i k n provider_passcode_method c
  show ?thesis by simp
qed

text \<open>
  The claim as stated fails on the choice form: the callback returns 0, and the field comes
  back with \<open>test123\<close> attached, which is not among its allowed values.
\<close>

theorem C1_choice_out_of_set_counterexample:
  "fst (process_auth_form_cb choice_form) = 0 \<and>
   map kind (opts (fst (snd (process_auth_form_cb choice_form)))) = [Choice] \<and>
   map choices (opts (fst (snd (process_auth_form_cb choice_form)))) = [[''push'', ''sms'']] \<and>
   map opt_value (opts (fst (snd (process_auth_form_cb choice_form)))) = [Some ''test123''] \<and>
   ''test123'' \<notin> set [''push'', ''sms'']"
  by (simp add: process_auth_form_cb_def choice_form_def fill_opt_def strdup_def)

subsection \<open>C2: the static map\<close>



subsection \<open>C3: the progress shim\<close>

text \<open>
  C3. \<open>progress_shim\<close> appends the message to the error stream when the level is \<open>PRG_ERR\<close>,
  and to the standard output stream at every other level; it leaves the other stream as it
  was, and it returns with the chosen stream flushed: nothing pending, and all that was
  pending delivered, the message last.
\<close>

theorem C3_progress_routing:
  "(level = PRG_ERR \<longrightarrow>
      progress_shim render level fmt args io =
        io\<lparr>err_stream :=
             \<lparr>pending = [],
              delivered = delivered (err_stream io) @ pending (err_stream io) @ render fmt args\<rparr>\<rparr>) \<and>
   (level \<noteq> PRG_ERR \<longrightarrow>
      progress_shim render level fmt args io =
        io\<lparr>out_stream :=
             \<lparr>pending = [],
              delivered = delivered (out_stream io) @ pending (out_stream io) @ render fmt args\<rparr>\<rparr>)"
  by (simp add: progress_shim_def vfprintf_def fflush_def get_stream_def put_stream_def Let_def)

text \<open>An error and a trace message, on streams where standard output holds an unflushed \<open>x\<close>.\<close>

theorem C3_progress_routing_witness:
  "progress_shim (\<lambda>fmt args. fmt @ args) PRG_ERR ''POST failed: '' ''404'' io0 =
     \<lparr>out_stream = \<lparr>pending = ''x'', delivered = []\<rparr>,
      err_stream = \<lparr>pending = [], delivered = ''POST failed: 404''\<rparr>\<rparr> \<and>
   PRG_TRACE \<noteq> PRG_ERR \<and>
   progress_shim (\<lambda>fmt args. fmt @ args) PRG_TRACE ''POST '' ''/'' io0 =
     \<lparr>out_stream = \<lparr>pending = [], delivered = ''xPOST /''\<rparr>,
      err_stream = \<lparr>pending = [], delivered = []\<rparr>\<rparr>"
  using C3_progress_routing [of PRG_ERR "\<lambda>fmt args. fmt @ args" "''POST failed: ''" "''404''" io0]
    C3_progress_routing [of PRG_TRACE "\<lambda>fmt args. fmt @ args" "''POST ''" "''/''" io0]
  by (simp add: io0_def PRG_ERR_def PRG_TRACE_def)

subsection \<open>C4: releasing the session\<close>

text \<open>
  C4 says that \<open>openconnect_vpninfo_free\<close> is called exactly once whenever the session was
  created. On an engine that creates the session and then rejects the protocol \<open>f5\<close>, \<open>main\<close>
  takes the early \<open>return 1\<close> after "Failed to set protocol": the handle was created and is
  never freed. (After a successful configure the handle is freed exactly once, lemma
  \<open>main_releases_after_configure\<close>.)
\<close>

theorem C4_release_skipped_on_configure_failure:
  "vpninfo_new engine_no_f5 = Some 1 \<and>
   main engine_no_f5 =
     (1, [Stdout (''Initializing OpenConnect...'' @ nl), Call InitSsl,
          Stdout (''Creating vpninfo...'' @ nl), Call VpninfoNew,
          Stdout (''Setting protocol to f5...'' @ nl), Call (SetProtocol 1 ''f5''),
          Stderr (''Failed to set protocol'' @ nl)]) \<and>
   count_list (snd (main engine_no_f5)) (Call (VpninfoFree 1)) = 0"
  by (simp add: main_def engine_no_f5_def engine_ok_def)

subsection \<open>C5: the terminal signal decides the outcome\<close>

text \<open>
  C5. In every run that reaches the negotiation, \<open>main\<close> returns the value of
  \<open>openconnect_obtain_cookie\<close>. When that value is 0 the run prints "Authentication
  successful!" and writes nothing to the error stream; when it is not 0 the run writes
  "Authentication failed" to the error stream, does not print the success message, and
  returns that nonzero value. Two runs with the same terminal signal report the same
  outcome, whatever else the engines did.
\<close>

theorem C5_signal_decides_outcome:
  assumes "init_ssl e = 0" and "vpninfo_new e = Some vpn" and "set_protocol e ''f5'' = 0"
    and "parse_url e ''https://access.etraveligroup.com'' = 0"
    and "negotiate process_auth_form_cb (obtain_cookie e) = (ret, out)"
  shows "fst (main e) = ret \<and>
    (ret = 0 \<longrightarrow>
       Stdout (''Authentication successful!'' @ nl) \<in> set (snd (main e)) \<and>
       (\<forall>m. Stderr m \<notin> set (snd (main e)))) \<and>
    (ret \<noteq> 0 \<longrightarrow>
       Stderr (''Authentication failed'' @ nl) \<in> set (snd (main e)) \<and>
       Stdout (''Authentication successful!'' @ nl) \<notin> set (snd (main e))) \<and>
    (\<forall>e' vpn' out'.
       init_ssl e' = 0 \<and> vpninfo_new e' = Some vpn' \<and> set_protocol e' ''f5'' = 0 \<and>
       parse_url e' ''https://access.etraveligroup.com'' = 0 \<and>
       negotiate process_auth_form_cb (obtain_cookie e') = (ret, out') \<longrightarrow>
       fst (main e') = fst (main e) \<and>
       (Stdout (''Authentication successful!'' @ nl) \<in> set (snd (main e')) \<longleftrightarrow>
        Stdout (''Authentication successful!'' @ nl) \<in> set (snd (main e))) \<and>
       (Stderr (''Authentication failed'' @ nl) \<in> set (snd (main e')) \<longleftrightarrow>
        Stderr (''Authentication failed'' @ nl) \<in> set (snd (main e))))"
proof -
  have verdict:
    "fst (main e') = r \<and>
     (Stdout (''Authentication successful!'' @ nl) \<in> set (snd (main e')) \<longleftrightarrow> r = 0) \<and>
     (Stderr (''Authentication failed'' @ nl) \<in> set (snd (main e')) \<longleftrightarrow> r \<noteq> 0) \<and>
     (r = 0 \<longrightarrow> (\<forall>m. Stderr m \<notin> set (snd (main e'))))"
    if r: "init_ssl e' = 0" "vpninfo_new e' = Some v" "set_protocol e' ''f5'' = 0"
      "parse_url e' ''https://access.etraveligroup.com'' = 0"
      "negotiate process_auth_form_cb (obtain_cookie e') = (r, out')"
    for e' v r out'
  proof -
    have o: "ev = Stdout (''Auth form callback called'' @ nl) \<or>
        (\<exists>n. ev = Stdout (''Field: '' @ n @ nl))" if "ev \<in> set out'" for ev
      using negotiate_cb_events [of ev "obtain_cookie e'"] r(5) that by simp
    have a: "Stdout (''Authentication successful!'' @ nl) \<notin> set out'"
      using o [of "Stdout (''Authentication successful!'' @ nl)"] by auto
    have b: "Stderr m \<notin> set out'" for m
      using o [of "Stderr m"] by auto
    show ?thesis
      using a b by (simp add: main_negotiates [OF r])
  qed
  from verdict [OF assms] have 1: "fst (main e) = ret"
    and 2: "Stdout (''Authentication successful!'' @ nl) \<in> set (snd (main e)) \<longleftrightarrow> ret = 0"
    and 3: "Stderr (''Authentication failed'' @ nl) \<in> set (snd (main e)) \<longleftrightarrow> ret \<noteq> 0"
    and 4: "ret = 0 \<longrightarrow> (\<forall>m. Stderr m \<notin> set (snd (main e)))"
    by blast+
  have 5: "fst (main e') = fst (main e) \<and>
       (Stdout (''Authentication successful!'' @ nl) \<in> set (snd (main e')) \<longleftrightarrow>
        Stdout (''Authentication successful!'' @ nl) \<in> set (snd (main e))) \<and>
       (Stderr (''Authentication failed'' @ nl) \<in> set (snd (main e')) \<longleftrightarrow>
        Stderr (''Authentication failed'' @ nl) \<in> set (snd (main e)))"
    if "init_ssl e' = 0" "vpninfo_new e' = Some vpn'" "set_protocol e' ''f5'' = 0"
       "parse_url e' ''https://access.etraveligroup.com'' = 0"
       "negotiate process_auth_form_cb (obtain_cookie e') = (ret, out')" for e' vpn' out'
    using verdict [OF that] 1 2 3 by simp
  have 6: "\<forall>e' vpn' out'.
       init_ssl e' = 0 \<and> vpninfo_new e' = Some vpn' \<and> set_protocol e' ''f5'' = 0 \<and>
       parse_url e' ''https://access.etraveligroup.com'' = 0 \<and>
       negotiate process_auth_form_cb (obtain_cookie e') = (ret, out') \<longrightarrow>
       fst (main e') = fst (main e) \<and>
       (Stdout (''Authentication successful!'' @ nl) \<in> set (snd (main e')) \<longleftrightarrow>
        Stdout (''Authentication successful!'' @ nl) \<in> set (snd (main e))) \<and>
       (Stderr (''Authentication failed'' @ nl) \<in> set (snd (main e')) \<longleftrightarrow>
        Stderr (''Authentication failed'' @ nl) \<in> set (snd (main e)))"
    by (intro allI impI, elim conjE, rule 5; assumption)
  from 1 2 3 4 have "fst (main e) = ret \<and>
    (ret = 0 \<longrightarrow>
       Stdout (''Authentication successful!'' @ nl) \<in> set (snd (main e)) \<and>
       (\<forall>m. Stderr m \<notin> set (snd (main e)))) \<and>
    (ret \<noteq> 0 \<longrightarrow>
       Stderr (''Authentication failed'' @ nl) \<in> set (snd (main e)) \<and>
       Stdout (''Authentication successful!'' @ nl) \<notin> set (snd (main e)))"
    by simp
  with 6 show ?thesis by blast
qed

text \<open>A negotiation that ends with 0, and one that ends with -1.\<close>

theorem C5_signal_decides_outcome_witness:
  "init_ssl engine_ok = 0 \<and> vpninfo_new engine_ok = Some 1 \<and>
   set_protocol engine_ok ''f5'' = 0 \<and>
   parse_url engine_ok ''https://access.etraveligroup.com'' = 0 \<and>
   fst (negotiate process_auth_form_cb (obtain_cookie engine_ok)) = 0 \<and>
   fst (main engine_ok) = 0 \<and>
   Stdout (''Authentication successful!'' @ nl) \<in> set (snd (main engine_ok)) \<and>
   init_ssl engine_rejected = 0 \<and> vpninfo_new engine_rejected = Some 1 \<and>
   set_protocol engine_rejected ''f5'' = 0 \<and>
   parse_url engine_rejected ''https://access.etraveligroup.com'' = 0 \<and>
   fst (negotiate process_auth_form_cb (obtain_cookie engine_rejected)) = - 1 \<and>
   (- 1 :: c_int) \<noteq> 0 \<and>
   fst (main engine_rejected) = - 1 \<and>
   Stderr (''Authentication failed'' @ nl) \<in> set (snd (main engine_rejected)) \<and>
   Stdout (''Authentication successful!'' @ nl) \<notin> set (snd (main engine_rejected))"
proof -
  have a: "init_ssl engine_ok = 0" "vpninfo_new engine_ok = Some 1"
    "set_protocol engine_ok ''f5'' = 0"
    "parse_url engine_ok ''https://access.etraveligroup.com'' = 0"
    by (simp_all add: engine_ok_def)
  have b: "init_ssl engine_rejected = 0" "vpninfo_new engine_rejected = Some 1"
    "set_protocol engine_rejected ''f5'' = 0"
    "parse_url engine_rejected ''https://access.etraveligroup.com'' = 0"
    by (simp_all add: engine_rejected_def engine_ok_def)
  from C5_signal_decides_outcome [OF a negotiate_engine_ok]
    C5_signal_decides_outcome [OF b negotiate_engine_rejected]
    a b negotiate_engine_ok negotiate_engine_rejected
  show ?thesis by simp
qed

subsection \<open>C6: the mapping the callback resolves\<close>

text \<open>
  C6 as stated: for every form, the mapping the callback resolves contains exactly the
  field names for which the provider had a value; a form with zero fields resolves to the
  empty mapping and returns 0. The first part fails on a form that arrives with a value
  attached to a field the provider has no value for: the callback never clears a value,
  so that name is in the mapping it leaves.

  C6 as amended: for every form the callback returns 0, and in the mapping carried by the
  form it leaves, each field name for which the provider has a value maps to the
  provider's value, and every other name maps to what it mapped to when the form arrived.
  So the names in the mapping are those that were in it on arrival together with the field
  names for which the provider has a value; on a form that arrives with no value attached
  they are exactly the field names for which the provider has a value; and a form with
  zero fields comes back unchanged, with the empty mapping.
\<close>

theorem C6_resolved_mapping:
  assumes "process_auth_form_cb form = (rc, form', out)"
  shows "rc = 0 \<and>
    (\<forall>n. spec_mapping form' n =
       (if Some n \<in> name ` set (opts form) \<and> spec_static_provider n \<noteq> None
        then spec_static_provider n else spec_mapping form n)) \<and>
    dom (spec_mapping form') =
      dom (spec_mapping form) \<union>
      {n. Some n \<in> name ` set (opts form) \<and> spec_static_provider n \<noteq> None} \<and>
    ((\<forall>opt \<in> set (opts form). opt_value opt = None) \<longrightarrow>
       (\<forall>n. spec_mapping form' n =
          (if Some n \<in> name ` set (opts form) then spec_static_provider n else None))) \<and>
    (opts form = [] \<longrightarrow> form' = form \<and> spec_mapping form' = Map.empty)"
proof -
  from assms have rc: "rc = 0"
    and f: "form' = form\<lparr>opts := map (\<lambda>opt. fst (fill_opt opt)) (opts form)\<rparr>"
    by (simp_all add: cb_eq fill_opts_fst)
  have g: "spec_mapping form' n =
       (if Some n \<in> name ` set (opts form) \<and> spec_static_provider n \<noteq> None
        then spec_static_provider n else spec_mapping form n)" for n
    unfolding spec_mapping_def f using map_of_filled_any [of "opts form" n] by simp
  have d: "dom (spec_mapping form') =
      dom (spec_mapping form) \<union>
      {n. Some n \<in> name ` set (opts form) \<and> spec_static_provider n \<noteq> None}"
    unfolding spec_mapping_def f by (simp add: dom_filled)
  have m: "spec_mapping form' n =
          (if Some n \<in> name ` set (opts form) then spec_static_provider n else None)"
    if "\<forall>opt \<in> set (opts form). opt_value opt = None" for n
    unfolding spec_mapping_def f using map_of_filled [OF that] by simp
  have z: "form' = form \<and> spec_mapping form' = Map.empty" if "opts form = []"
    using that by (simp add: f spec_mapping_def List.map_filter_simps)
  from rc g d m z show ?thesis by blast
qed

text \<open>The form with no fields, the login form, and the form that arrives with a default.\<close>

theorem C6_resolved_mapping_witness:
  "process_auth_form_cb \<lparr>opts = []\<rparr> =
     (0, \<lparr>opts = []\<rparr>, [Stdout (''Auth form callback called'' @ nl)]) \<and>
   spec_mapping \<lparr>opts = []\<rparr> = Map.empty \<and>
   map opt_value (opts login_form) = [None, None] \<and>
   spec_mapping (fst (snd (process_auth_form_cb login_form))) ''username'' = Some ''vicwil'' \<and>
   spec_mapping (fst (snd (process_auth_form_cb login_form))) ''password'' = Some ''test123'' \<and>
   spec_mapping (fst (snd (process_auth_form_cb login_form))) ''group_list'' = None \<and>
   spec_mapping prefilled_form ''group_list'' = Some ''staff'' \<and>
   spec_mapping prefilled_form ''username'' = None \<and>
   spec_mapping (fst (snd (process_auth_form_cb prefilled_form))) ''group_list'' = Some ''staff'' \<and>
   spec_mapping (fst (snd (process_auth_form_cb prefilled_form))) ''username'' = Some ''vicwil''"
proof -
  have e: "process_auth_form_cb \<lparr>opts = []\<rparr> =
     (0, \<lparr>opts = []\<rparr>, [Stdout (''Auth form callback called'' @ nl)])"
    by (simp add: process_auth_form_cb_def)
  have e': "spec_mapping \<lparr>opts = []\<rparr> = Map.empty"
    using C6_resolved_mapping [OF e] by simp
  have u: "\<forall>opt \<in> set (opts login_form). opt_value opt = None"
    and u': "map opt_value (opts login_form) = [None, None]"
    by (simp_all add: login_form_def)
  have l: "process_auth_form_cb login_form =
     (fst (process_auth_form_cb login_form), fst (snd (process_auth_form_cb login_form)),
      snd (snd (process_auth_form_cb login_form)))"
    by simp
  from C6_resolved_mapping [OF l] u have lm:
    "spec_mapping (fst (snd (process_auth_form_cb login_form))) n =
       (if Some n \<in> name ` set (opts login_form) then spec_static_provider n else None)" for n
    by blast
  have l1: "spec_mapping (fst (snd (process_auth_form_cb login_form))) ''username'' = Some ''vicwil''"
    and l2: "spec_mapping (fst (snd (process_auth_form_cb login_form))) ''password'' = Some ''test123''"
    and l3: "spec_mapping (fst (snd (process_auth_form_cb login_form))) ''group_list'' = None"
    unfolding lm by (simp_all add: login_form_def provider_username provider_password)
  have p: "process_auth_form_cb prefilled_form =
     (fst (process_auth_form_cb prefilled_form), fst (snd (process_auth_form_cb prefilled_form)),
      snd (snd (process_auth_form_cb prefilled_form)))"
    by simp
  from C6_resolved_mapping [OF p] have pm:
    "spec_mapping (fst (snd (process_auth_form_cb prefilled_form))) n =
       (if Some n \<in> name ` set (opts prefilled_form) \<and> spec_static_provider n \<noteq> None
        then spec_static_provider n else spec_mapping prefilled_form n)" for n
    by blast
  have b1: "spec_mapping prefilled_form ''group_list'' = Some ''staff''"
    and b2: "spec_mapping prefilled_form ''username'' = None"
    by (simp_all add: spec_mapping_def prefilled_form_def spec_entry_def List.map_filter_simps)
  have p1: "spec_mapping (fst (snd (process_auth_form_cb prefilled_form))) ''group_list'' = Some ''staff''"
    unfolding pm by (simp add: provider_group_list b1)
  have p2: "spec_mapping (fst (snd (process_auth_form_cb prefilled_form))) ''username'' = Some ''vicwil''"
    unfolding pm by (simp add: provider_username prefilled_form_def)
  from e e' u' l1 l2 l3 b1 b2 p1 p2 show ?thesis by blast
qed

text \<open>
  The claim as stated fails on the form that arrives with a default: the provider has no
  value for \<open>group_list\<close>, and the mapping the callback leaves has \<open>group_list\<close> in it.
\<close>

theorem C6_prefilled_value_counterexample:
  "fst (process_auth_form_cb prefilled_form) = 0 \<and>
   spec_static_provider ''group_list'' = None \<and>
   spec_mapping (fst (snd (process_auth_form_cb prefilled_form))) ''group_list'' = Some ''staff''"
  by (simp add: prefilled_form_filled provider_group_list spec_mapping_def spec_entry_def
      List.map_filter_simps)

subsection \<open>C7: a failed configure step\<close>

text \<open>
  C7. When the session has been created and the engine rejects the protocol or the URL,
  \<open>main\<close> returns 1, the last thing it does is to write the configure step's message
  ("Failed to set protocol", "Failed to parse URL") to the error stream, and
  \<open>openconnect_obtain_cookie\<close> is never called. The return value 1 together with that
  message is how this program reports what the specification calls a FatalConfigError.
\<close>

theorem C7_configure_failure_ends_run:
  assumes "init_ssl e = 0" and "vpninfo_new e = Some vpn"
    and "set_protocol e ''f5'' \<noteq> 0 \<or> parse_url e ''https://access.etraveligroup.com'' \<noteq> 0"
  shows "fst (main e) = 1 \<and>
    (\<forall>h. Call (ObtainCookie h) \<notin> set (snd (main e))) \<and>
    last (snd (main e)) =
      Stderr (if set_protocol e ''f5'' \<noteq> 0 then ''Failed to set protocol'' @ nl
              else ''Failed to parse URL'' @ nl)"
proof (cases "set_protocol e ''f5'' = 0")
  case True
  with assms(3) have "parse_url e ''https://access.etraveligroup.com'' \<noteq> 0" by simp
  from main_url_fails [OF assms(1,2) True this] True show ?thesis by simp
next
  case False
  from main_protocol_fails [OF assms(1,2) False] False show ?thesis by simp
qed

text \<open>An engine that rejects the protocol, and one that rejects the URL.\<close>

theorem C7_configure_failure_ends_run_witness:
  "init_ssl engine_no_f5 = 0 \<and> vpninfo_new engine_no_f5 = Some 1 \<and>
   set_protocol engine_no_f5 ''f5'' = - 22 \<and> (- 22 :: c_int) \<noteq> 0 \<and>
   fst (main engine_no_f5) = 1 \<and>
   Call (ObtainCookie 1) \<notin> set (snd (main engine_no_f5)) \<and>
   last (snd (main engine_no_f5)) = Stderr (''Failed to set protocol'' @ nl) \<and>
   set_protocol (engine_ok\<lparr>parse_url := \<lambda>u. - 22\<rparr>) ''f5'' = 0 \<and>
   parse_url (engine_ok\<lparr>parse_url := \<lambda>u. - 22\<rparr>) ''https://access.etraveligroup.com'' = - 22 \<and>
   fst (main (engine_ok\<lparr>parse_url := \<lambda>u. - 22\<rparr>)) = 1 \<and>
   Call (ObtainCookie 1) \<notin> set (snd (main (engine_ok\<lparr>parse_url := \<lambda>u. - 22\<rparr>))) \<and>
   last (snd (main (engine_ok\<lparr>parse_url := \<lambda>u. - 22\<rparr>))) = Stderr (''Failed to parse URL'' @ nl)"
proof -
  have a: "init_ssl engine_no_f5 = 0" "vpninfo_new engine_no_f5 = Some 1"
    by (simp_all add: engine_no_f5_def engine_ok_def)
  have p: "set_protocol engine_no_f5 ''f5'' = - 22"
    by (simp add: engine_no_f5_def engine_ok_def)
  then have p': "set_protocol engine_no_f5 ''f5'' \<noteq> 0 \<or>
      parse_url engine_no_f5 ''https://access.etraveligroup.com'' \<noteq> 0"
    by simp
  let ?e = "engine_ok\<lparr>parse_url := \<lambda>u. - 22\<rparr>"
  have b: "init_ssl ?e = 0" "vpninfo_new ?e = Some 1"
    by (simp_all add: engine_ok_def)
  have u: "set_protocol ?e ''f5'' = 0" "parse_url ?e ''https://access.etraveligroup.com'' = - 22"
    by (simp_all add: engine_ok_def)
  then have u': "set_protocol ?e ''f5'' \<noteq> 0 \<or>
      parse_url ?e ''https://access.etraveligroup.com'' \<noteq> 0"
    by simp
  from C7_configure_failure_ends_run [OF a p'] C7_configure_failure_ends_run [OF b u'] a p u
  show ?thesis by simp
qed

subsection \<open>C8: every failure is reported on the error stream\<close>

text \<open>
  C8. \<open>main\<close> returns a nonzero value exactly when SSL initialisation failed, or no session
  was created, or the protocol or the URL was rejected, or \<open>openconnect_obtain_cookie\<close>
  returned nonzero; and in every run that returns a nonzero value, a nonempty message has
  been written to the error stream before \<open>main\<close> returns.
\<close>

theorem C8_failure_writes_to_stderr:
  "(init_ssl e \<noteq> 0 \<or> vpninfo_new e = None \<or> set_protocol e ''f5'' \<noteq> 0 \<or>
    parse_url e ''https://access.etraveligroup.com'' \<noteq> 0 \<or>
    fst (negotiate process_auth_form_cb (obtain_cookie e)) \<noteq> 0
      \<longleftrightarrow> fst (main e) \<noteq> 0) \<and>
   (fst (main e) \<noteq> 0 \<longrightarrow> (\<exists>m. m \<noteq> [] \<and> Stderr m \<in> set (snd (main e))))"
proof (cases "init_ssl e = 0")
  case False
  from main_init_fails [OF False] False show ?thesis by (simp add: nl_def)
next
  case i: True
  show ?thesis
  proof (cases "vpninfo_new e")
    case None
    from main_new_fails [OF i None] None show ?thesis by (simp add: nl_def)
  next
    case (Some vpn)
    show ?thesis
    proof (cases "set_protocol e ''f5'' = 0")
      case False
      from main_protocol_fails [OF i Some False] False show ?thesis by (simp add: nl_def)
    next
      case p: True
      show ?thesis
      proof (cases "parse_url e ''https://access.etraveligroup.com'' = 0")
        case False
        from main_url_fails [OF i Some p False] False show ?thesis by (simp add: nl_def)
      next
        case u: True
        obtain ret out where n: "negotiate process_auth_form_cb (obtain_cookie e) = (ret, out)"
          by (cases "negotiate process_auth_form_cb (obtain_cookie e)") auto
        from main_negotiates [OF i Some p u n] i Some p u n show ?thesis
          by (auto simp: nl_def)
      qed
    qed
  qed
qed

text \<open>A rejected negotiation, and a failed SSL initialisation.\<close>

theorem C8_failure_writes_to_stderr_witness:
  "fst (negotiate process_auth_form_cb (obtain_cookie engine_rejected)) = - 1 \<and>
   (- 1 :: c_int) \<noteq> 0 \<and>
   fst (main engine_rejected) \<noteq> 0 \<and>
   (\<exists>m. m \<noteq> [] \<and> Stderr m \<in> set (snd (main engine_rejected))) \<and>
   init_ssl (engine_ok\<lparr>init_ssl := 1\<rparr>) = 1 \<and>
   fst (main (engine_ok\<lparr>init_ssl := 1\<rparr>)) \<noteq> 0 \<and>
   (\<exists>m. m \<noteq> [] \<and> Stderr m \<in> set (snd (main (engine_ok\<lparr>init_ssl := 1\<rparr>))))"
  using C8_failure_writes_to_stderr [of engine_rejected] negotiate_engine_rejected
    C8_failure_writes_to_stderr [of "engine_ok\<lparr>init_ssl := 1\<rparr>"]
  by simp

subsection \<open>C9: the callback never aborts\<close>

text \<open>
  C9. Whatever the form, also one in which no field name matches a pattern and no value
  is assigned, the auth-form callback returns 0; no form makes it return a nonzero code.
\<close>

theorem C9_callback_always_succeeds:
  "fst (process_auth_form_cb form) = 0 \<and> (\<nexists>f. fst (process_auth_form_cb f) \<noteq> 0)"
  by (simp add: cb_eq)

text \<open>A form whose only field matches no pattern: it comes back as it was, with 0.\<close>

theorem C9_callback_always_succeeds_witness:
  "process_auth_form_cb
     \<lparr>opts = [\<lparr>kind = Text, name = Some ''group_list'', label = None, opt_value = None,
              choices = []\<rparr>]\<rparr> =
   (0,
    \<lparr>opts = [\<lparr>kind = Text, name = Some ''group_list'', label = None, opt_value = None,
             choices = []\<rparr>]\<rparr>,
    [Stdout (''Auth form callback called'' @ nl), Stdout (''Field: group_list'' @ nl)])"
  using C9_callback_always_succeeds
    [of "\<lparr>opts = [\<lparr>kind = Text, name = Some ''group_list'', label = None, opt_value = None,
              choices = []\<rparr>]\<rparr>"]
  by (simp add: process_auth_form_cb_def fill_opt_def)

subsection \<open>C10: a field without a name\<close>

text \<open>
  C10. A field whose name is \<open>NULL\<close> goes through the loop body untouched and prints
  nothing: the branch that matches the name and assigns a value is not entered. Wherever the
  field stands in the form, the callback leaves it as it was, treats the fields before and
  after it as it would without it, and returns 0.
\<close>

theorem C10_null_name_skipped:
  assumes "name opt = None"
  shows "fill_opt opt = (opt, []) \<and>
    process_auth_form_cb (form\<lparr>opts := pre @ opt # rest\<rparr>) =
      (0,
       form\<lparr>opts := fst (fill_opts pre) @ opt # fst (fill_opts rest)\<rparr>,
       Stdout (''Auth form callback called'' @ nl) # snd (fill_opts pre) @ snd (fill_opts rest))"
proof -
  from assms have s: "fill_opt opt = (opt, [])"
    by (simp add: fill_opt_def)
  then have "fill_opts (opt # rest) = (opt # fst (fill_opts rest), snd (fill_opts rest))"
    by (simp add: case_prod_beta)
  with s show ?thesis
    by (simp add: cb_eq fill_opts_append)
qed

text \<open>The form whose second field has no name.\<close>

theorem C10_null_name_skipped_witness:
  "name \<lparr>kind = Text, name = None, label = None, opt_value = None, choices = []\<rparr> = None \<and>
   process_auth_form_cb nameless_form =
     (0,
      \<lparr>opts =
        [\<lparr>kind = Text, name = Some ''username'', label = None, opt_value = Some ''vicwil'',
          choices = []\<rparr>,
         \<lparr>kind = Text, name = None, label = None, opt_value = None, choices = []\<rparr>,
         \<lparr>kind = Password, name = Some ''password'', label = None, opt_value = Some ''test123'',
          choices = []\<rparr>]\<rparr>,
      [Stdout (''Auth form callback called'' @ nl), Stdout (''Field: username'' @ nl),
       Stdout (''Field: password'' @ nl)])"
  using C10_null_name_skipped
    [where opt = "\<lparr>kind = Text, name = None, label = None, opt_value = None, choices = []\<rparr>"
       and form = nameless_form
       and pre = "[\<lparr>kind = Text, name = Some ''username'', label = None, opt_value = None,
                   choices = []\<rparr>]"
       and rest = "[\<lparr>kind = Password, name = Some ''password'', label = None,
                    opt_value = None, choices = []\<rparr>]"]
  by (simp add: nameless_form_def fill_opt_def strdup_def)

end
